theory Spec2Isabelle
  imports Complex_Main
begin

section \<open>Go runtime values used by main.go\<close>

text \<open>
  A Go call either returns or panics. A panic is not an error value: it unwinds the
  goroutine, so it is kept apart from the \<open>error\<close> results below.
\<close>

datatype 'a outcome = Panic | Returns 'a

text \<open>
  The errors of main.go are all built by \<open>fmt.Errorf\<close>; each constructor stands for
  one call site (or, for the parser, for the kind the specification gives that site):
  \<^item> \<open>ConnectError\<close>: line 141, \<open>net.Dial\<close> failed;
  \<^item> \<open>ReadError\<close>: line 150, \<open>io.Copy\<close> failed;
  \<^item> \<open>MalformedEnvelope\<close>: line 165;
  \<^item> \<open>WrongFieldCount\<close>: line 181;
  \<^item> \<open>UnsupportedUnit\<close>: line 184;
  \<^item> \<open>BadNumber\<close>: line 190.
  Line 170 wraps an item's error in a longer message; the kind is the item's.
\<close>

datatype error =
    ConnectError
  | ReadError
  | MalformedEnvelope
  | WrongFieldCount
  | UnsupportedUnit
  | BadNumber

text \<open>
  A slice expression \<open>s[lo:hi]\<close> on a string panics unless
  \<open>0 \<le> lo \<le> hi \<le> len(s)\<close>.
\<close>

definition slice :: "string \<Rightarrow> int \<Rightarrow> int \<Rightarrow> string outcome" where
  "slice s lo hi =
     (if 0 \<le> lo \<and> lo \<le> hi \<and> hi \<le> int (length s)
      then Returns (take (nat (hi - lo)) (drop (nat lo) s))
      else Panic)"

text \<open>
  \<open>strings.HasPrefix(s, prefix)\<close> is
  \<open>len(s) >= len(prefix) && s[0:len(prefix)] == prefix\<close>.
\<close>

definition HasPrefix :: "string \<Rightarrow> string \<Rightarrow> bool" where
  "HasPrefix s pre = (length pre \<le> length s \<and> take (length pre) s = pre)"

text \<open>
  \<open>strings.Split(s, sep)\<close> for a non-empty \<open>sep\<close>: the pieces of \<open>s\<close> between the
  occurrences of \<open>sep\<close>, found from the left and without overlap; a string without
  \<open>sep\<close> (the empty string too) is one piece. Both call sites of main.go pass a
  constant non-empty separator; Go's special case for an empty separator (one piece per
  character) is not modelled.
\<close>

function Split :: "string \<Rightarrow> string \<Rightarrow> string list" where
  "Split [] sep = [[]]"
| "Split (c # cs) sep =
     (if sep \<noteq> [] \<and> take (length sep) (c # cs) = sep
      then [] # Split (drop (length sep) (c # cs)) sep
      else (case Split cs sep of
              [] \<Rightarrow> [[c]]
            | piece # pieces \<Rightarrow> (c # piece) # pieces))"
  by pat_completeness auto
termination
  by (relation "measure (\<lambda>(s, sep). length s)") auto

section \<open>The protocol parser\<close>

record 'f HddTemperature =
  Device :: string
  Id' :: string
  TemperatureCelsius :: 'f

text \<open>
  \<open>parseHddTemp\<close> (lines 178 to 194). \<open>strconv.ParseFloat(temp, 64)\<close> is a function
  of the Go standard library, not of this repository: it is the parameter
  \<open>ParseFloat\<close>, which gives \<open>None\<close> where the library returns an error, and the
  type \<open>'f\<close> stands for \<open>float64\<close>.
\<close>

definition parseHddTemp :: "(string \<Rightarrow> 'f option) \<Rightarrow> string \<Rightarrow> error + 'f HddTemperature" where
  "parseHddTemp ParseFloat s =
     (let pieces = Split s ''|'' in
      if length pieces \<noteq> 4 then Inl WrongFieldCount
      else if pieces ! 3 \<noteq> ''C'' then Inl UnsupportedUnit
      else (case ParseFloat (pieces ! 2) of
              None \<Rightarrow> Inl BadNumber
            | Some ftemp \<Rightarrow>
                Inr \<lparr>Device = pieces ! 0, Id' = pieces ! 1, TemperatureCelsius = ftemp\<rparr>))"

text \<open>The loop of \<open>parseHddTemps\<close> (lines 167 to 174), with \<open>hddtemps\<close> as accumulator.\<close>

fun parseHddTemps_loop ::
  "(string \<Rightarrow> 'f option) \<Rightarrow> 'f HddTemperature list \<Rightarrow> string list \<Rightarrow> error + 'f HddTemperature list"
where
  "parseHddTemps_loop ParseFloat hddtemps [] = Inr hddtemps"
| "parseHddTemps_loop ParseFloat hddtemps (item # items) =
     (case parseHddTemp ParseFloat item of
        Inl err \<Rightarrow> Inl err
      | Inr hddtemp \<Rightarrow> parseHddTemps_loop ParseFloat (hddtemps @ [hddtemp]) items)"

text \<open>
  \<open>parseHddTemps\<close> (lines 162 to 176). The guard of line 164 lets every string that
  starts with the delimiter through, the one-character string too; line 167 then
  slices \<open>s[1:len(s)-1]\<close>.
\<close>

definition parseHddTemps ::
  "(string \<Rightarrow> 'f option) \<Rightarrow> string \<Rightarrow> (error + 'f HddTemperature list) outcome"
where
  "parseHddTemps ParseFloat s =
     (if length s < 1 \<or> s ! 0 \<noteq> CHR ''|'' then Returns (Inl MalformedEnvelope)
      else (case slice s 1 (int (length s) - 1) of
              Panic \<Rightarrow> Panic
            | Returns body \<Rightarrow> Returns (parseHddTemps_loop ParseFloat [] (Split body ''||''))))"

text \<open>
  The wire format the daemon writes, in the specification's words: one envelope
  \<open>|dev|id|temp|unit||dev|id|temp|unit|...|\<close>. A reading is the triple of a device,
  an id and the text of a temperature; its unit is always \<open>C\<close>.
\<close>

type_synonym reading = "string \<times> string \<times> string"

fun item_text :: "reading \<Rightarrow> string" where
  "item_text (dev, ident, temp) = dev @ ''|'' @ ident @ ''|'' @ temp @ ''|C''"

fun Join :: "string list \<Rightarrow> string \<Rightarrow> string" where
  "Join [] sep = []"
| "Join [x] sep = x"
| "Join (x # y # ys) sep = x @ sep @ Join (y # ys) sep"

definition envelope :: "reading list \<Rightarrow> string" where
  "envelope rs = ''|'' @ Join (map item_text rs) ''||'' @ ''|''"

text \<open>
  A reading is well formed when no field holds the delimiter and neither the id nor the
  temperature text is empty: an empty one of these puts two delimiters side by side
  inside the item, which is how the envelope separates items.
\<close>

fun wf_reading :: "reading \<Rightarrow> bool" where
  "wf_reading (dev, ident, temp) =
     (CHR ''|'' \<notin> set dev \<and> CHR ''|'' \<notin> set ident \<and> CHR ''|'' \<notin> set temp \<and>
      ident \<noteq> [] \<and> temp \<noteq> [])"

text \<open>The record a reading stands for, once its temperature text has been read as \<open>v\<close>.\<close>

fun reading_record :: "reading \<times> 'f \<Rightarrow> 'f HddTemperature" where
  "reading_record ((dev, ident, temp), v) =
     \<lparr>Device = dev, Id' = ident, TemperatureCelsius = v\<rparr>"

text \<open>
  A string in which every delimiter stands alone: no two delimiters side by side, and
  none at the very end. Such a string holds no item separator, and none appears across
  its end when a separator follows it.
\<close>

fun single_delims :: "string \<Rightarrow> bool" where
  "single_delims [] = True"
| "single_delims [c] = (c \<noteq> CHR ''|'')"
| "single_delims (c # d # cs) = ((c \<noteq> CHR ''|'' \<or> d \<noteq> CHR ''|'') \<and> single_delims (d # cs))"

text \<open>
  A reader of plain decimal numerals (an optional sign, digits, and optionally a point
  and more digits) with their exact values. It stands in for \<open>ParseFloat\<close> in the
  worked examples, on numerals such as \<open>45.0\<close> and \<open>50.5\<close> whose value \<open>float64\<close>
  holds exactly; it is not a model of \<open>strconv.ParseFloat\<close>.
\<close>

definition digit :: "char \<Rightarrow> nat option" where
  "digit c = map_of (zip ''0123456789'' [0, 1, 2, 3, 4, 5, 6, 7, 8, 9]) c"

fun digits :: "nat \<Rightarrow> string \<Rightarrow> nat option" where
  "digits acc [] = Some acc"
| "digits acc (c # cs) =
     (case digit c of None \<Rightarrow> None | Some d \<Rightarrow> digits (10 * acc + d) cs)"

definition unsigned_decimal :: "string \<Rightarrow> rat option" where
  "unsigned_decimal s =
     (let intpart = takeWhile (\<lambda>c. c \<noteq> CHR ''.'') s;
          rest = dropWhile (\<lambda>c. c \<noteq> CHR ''.'') s
      in if intpart = [] then None
         else (case digits 0 intpart of
                 None \<Rightarrow> None
               | Some w \<Rightarrow>
                   (case rest of
                      [] \<Rightarrow> Some (of_nat w)
                    | _ # fracpart \<Rightarrow>
                        (if fracpart = [] then None
                         else (case digits 0 fracpart of
                                 None \<Rightarrow> None
                               | Some f \<Rightarrow> Some (of_nat w + of_nat f / 10 ^ length fracpart))))))"

fun decimal :: "string \<Rightarrow> rat option" where
  "decimal [] = None"
| "decimal (c # cs) =
     (if c = CHR ''-'' then map_option uminus (unsigned_decimal cs)
      else if c = CHR ''+'' then unsigned_decimal cs
      else unsigned_decimal (c # cs))"

text \<open>
  Modelled from the documentation of the Go standard library:
  \<open>strconv.ParseFloat(s, 64)\<close>, for the decimal syntax and the special values.
  \<^item> It recognizes the string \<open>NaN\<close> and the possibly signed strings \<open>Inf\<close> and
    \<open>Infinity\<close>, ignoring case.
  \<^item> It accepts decimal floating-point numbers in the syntax of Go literals: an
    optional sign, digits with at most one point and at least one digit, and optionally
    \<open>e\<close> or \<open>E\<close> with an optionally signed exponent of at least one digit.
  \<^item> A well-formed number more than half a unit in the last place beyond the largest
    \<open>float64\<close> gives \<open>ErrRange\<close>; anything that is not well formed gives
    \<open>ErrSyntax\<close>. Both are \<open>None\<close> here.
  \<open>Finite q\<close> stands for the \<open>float64\<close> nearest to \<open>q\<close>: the rounding is left out.
  Hexadecimal literals and underscores between digits, which newer versions of the
  library also accept, are not modelled (they are rejected here); no statement below
  rests on them.
\<close>

datatype float64 = NaN | Infinite bool | Finite rat

definition lower :: "char \<Rightarrow> char" where
  "lower c =
     (case map_of (zip ''ABCDEFGHIJKLMNOPQRSTUVWXYZ'' ''abcdefghijklmnopqrstuvwxyz'') c of
        None \<Rightarrow> c
      | Some l \<Rightarrow> l)"

fun strip_sign :: "string \<Rightarrow> bool \<times> string" where
  "strip_sign [] = (False, [])"
| "strip_sign (c # cs) =
     (if c = CHR ''-'' then (True, cs)
      else if c = CHR ''+'' then (False, cs)
      else (False, c # cs))"

definition special :: "string \<Rightarrow> float64 option" where
  "special s =
     (if map lower s = ''nan'' then Some NaN
      else (case strip_sign s of
              (neg, body) \<Rightarrow>
                if map lower body = ''inf'' \<or> map lower body = ''infinity''
                then Some (Infinite neg) else None))"

definition mantissa :: "string \<Rightarrow> rat option" where
  "mantissa m =
     (let intpart = takeWhile (\<lambda>c. c \<noteq> CHR ''.'') m;
          point = dropWhile (\<lambda>c. c \<noteq> CHR ''.'') m;
          fracpart = (case point of [] \<Rightarrow> [] | _ # ds \<Rightarrow> ds)
      in if intpart @ fracpart = [] then None
         else (case (digits 0 intpart, digits 0 fracpart) of
                 (Some w, Some f) \<Rightarrow> Some (of_nat w + of_nat f / 10 ^ length fracpart)
               | _ \<Rightarrow> None))"

definition exponent :: "string \<Rightarrow> int option" where
  "exponent e =
     (case strip_sign e of
        (neg, ds) \<Rightarrow>
          if ds = [] then None
          else (case digits 0 ds of
                  None \<Rightarrow> None
                | Some n \<Rightarrow> Some (if neg then - int n else int n)))"

definition scale10 :: "rat \<Rightarrow> int \<Rightarrow> rat" where
  "scale10 q e = (if 0 \<le> e then q * 10 ^ nat e else q / 10 ^ nat (- e))"

definition decimal_literal :: "string \<Rightarrow> rat option" where
  "decimal_literal s =
     (let m = takeWhile (\<lambda>c. c \<noteq> CHR ''e'' \<and> c \<noteq> CHR ''E'') s;
          rest = dropWhile (\<lambda>c. c \<noteq> CHR ''e'' \<and> c \<noteq> CHR ''E'') s
      in case mantissa m of
           None \<Rightarrow> None
         | Some q \<Rightarrow>
             (case rest of
                [] \<Rightarrow> Some q
              | _ # e \<Rightarrow> (case exponent e of None \<Rightarrow> None | Some n \<Rightarrow> Some (scale10 q n))))"

definition MaxFloat64 :: rat where
  "MaxFloat64 = (2 ^ 53 - 1) * 2 ^ 971"

definition ParseFloat64 :: "string \<Rightarrow> float64 option" where
  "ParseFloat64 s =
     (case special s of
        Some v \<Rightarrow> Some v
      | None \<Rightarrow>
          (case strip_sign s of
             (neg, body) \<Rightarrow>
               (case decimal_literal body of
                  None \<Rightarrow> None
                | Some q \<Rightarrow>
                    if MaxFloat64 + 2 ^ 970 < q then None
                    else Some (Finite (if neg then - q else q)))))"

text \<open>
  A base-10 floating point numeral, in the specification's words: an optionally signed
  decimal number, with or without a point and an exponent. Its size plays no part, and
  the names of the special values are not numerals.
\<close>

definition base10_numeral :: "string \<Rightarrow> bool" where
  "base10_numeral s = (decimal_literal (snd (strip_sign s)) \<noteq> None)"

section \<open>The remote temperature collector\<close>

text \<open>
  \<open>HddCollector\<close> (lines 119 to 123). \<open>conn\<close> is a Go interface value: it is
  \<open>nil\<close> (\<open>None\<close>) until \<open>Init\<close> stores a connection. \<open>buf\<close> is the
  \<open>bytes.Buffer\<close>, shown by its unread contents.
\<close>

datatype net_Conn = TCPConn string

record HddCollector =
  address :: string
  conn :: "net_Conn option"
  buf :: string

definition NewHddCollector :: "string \<Rightarrow> HddCollector" where
  "NewHddCollector addr = \<lparr>address = addr, conn = None, buf = []\<rparr>"

text \<open>
  \<open>Init\<close> (lines 138 to 145). \<open>net.Dial\<close> is the parameter \<open>Dial\<close>: \<open>None\<close>
  where it returns an error. The collector is changed only on success.
\<close>

definition Init :: "(string \<Rightarrow> net_Conn option) \<Rightarrow> HddCollector \<Rightarrow> HddCollector \<times> error option" where
  "Init Dial h =
     (case Dial (address h) of
        None \<Rightarrow> (h, Some ConnectError)
      | Some c \<Rightarrow> (h\<lparr>conn := Some c\<rparr>, None))"

text \<open>
  What one call of \<open>io.Copy(&h.buf, h.conn)\<close> meets on the connection: bytes, and
  then either the end of the stream (\<open>io.Copy\<close> returns \<open>nil\<close>) or a read error.
  \<open>bytes.Buffer.ReadFrom\<close> appends what it has read before it looks at the error.
\<close>

datatype stream_read = UntilEOF string | UntilError string

fun received :: "stream_read \<Rightarrow> string" where
  "received (UntilEOF bs) = bs"
| "received (UntilError bs) = bs"

text \<open>
  \<open>readTempsFromConn\<close> (lines 147 to 153). With a \<open>nil\<close> connection
  \<open>io.Copy\<close> reaches a method call on a \<open>nil\<close> interface, which panics.
  Nothing ever resets \<open>h.buf\<close>.
\<close>

definition readTempsFromConn ::
  "HddCollector \<Rightarrow> stream_read \<Rightarrow> (HddCollector \<times> (error + string)) outcome"
where
  "readTempsFromConn h r =
     (case conn h of
        None \<Rightarrow> Panic
      | Some c \<Rightarrow>
          (let h' = h\<lparr>buf := buf h @ received r\<rparr> in
           case r of
             UntilError bs \<Rightarrow> Returns (h', Inl ReadError)
           | UntilEOF bs \<Rightarrow> Returns (h', Inr (buf h'))))"

text \<open>
  A sample sent on the channel of \<open>Collect\<close>: \<open>hddTempDesc\<close> with its two label
  values and the gauge value (lines 215 to 219).
\<close>

record 'f Metric =
  metric_name :: string
  metric_labels :: "(string \<times> string) list"
  metric_value :: 'f

definition hddTempMetric :: "'f HddTemperature \<Rightarrow> 'f Metric" where
  "hddTempMetric ht =
     \<lparr>metric_name = ''sensor_hddsmart_temperature_celsius'',
      metric_labels = [(''device'', Device ht), (''id'', Id' ht)],
      metric_value = TemperatureCelsius ht\<rparr>"

text \<open>
  \<open>Collect\<close> (lines 202 to 221) returns the collector after the call, the samples
  sent on the channel, and the errors given to \<open>log.Printf\<close>.
\<close>

definition Collect ::
  "(string \<Rightarrow> 'f option) \<Rightarrow> HddCollector \<Rightarrow> stream_read \<Rightarrow>
     (HddCollector \<times> 'f Metric list \<times> error list) outcome"
where
  "Collect ParseFloat h r =
     (case readTempsFromConn h r of
        Panic \<Rightarrow> Panic
      | Returns (h', Inl err) \<Rightarrow> Returns (h', [], [err])
      | Returns (h', Inr tempsString) \<Rightarrow>
          (case parseHddTemps ParseFloat tempsString of
             Panic \<Rightarrow> Panic
           | Returns (Inl err) \<Rightarrow> Returns (h', [], [err])
           | Returns (Inr hddtemps) \<Rightarrow> Returns (h', map hddTempMetric hddtemps, [])))"

text \<open>
  A run of scrapes: \<open>Collect\<close> called once per scrape on the same collector. A panic
  ends the run (\<open>None\<close>).
\<close>

fun scrapes :: "(string \<Rightarrow> 'f option) \<Rightarrow> HddCollector \<Rightarrow> stream_read list \<Rightarrow> HddCollector option" where
  "scrapes ParseFloat h [] = Some h"
| "scrapes ParseFloat h (r # rs) =
     (case Collect ParseFloat h r of
        Panic \<Rightarrow> None
      | Returns (h', out) \<Rightarrow> scrapes ParseFloat h' rs)"

section \<open>The local sensor poller\<close>

text \<open>
  What \<open>gosensors\<close> reports: a chip with its \<open>String()\<close>, its \<open>AdapterName()\<close>
  and its features, each with a \<open>Name\<close>, a \<open>GetLabel()\<close> and a \<open>GetValue()\<close>.
\<close>

record 'f Feature =
  Name :: string
  GetLabel :: string
  GetValue :: 'f

record 'f Chip =
  chipName :: string
  adaptorName :: string
  GetFeatures :: "'f Feature list"

text \<open>
  The four gauge vectors (lines 21 to 47). \<open>WithLabelValues(l, c, a).Set(v)\<close> stores
  \<open>v\<close> under the label values \<open>(l, c, a)\<close>.
\<close>

type_synonym label_values = "string \<times> string \<times> string"

record 'f Gauges =
  fanspeed :: "label_values \<rightharpoonup> 'f"
  voltages :: "label_values \<rightharpoonup> 'f"
  powers :: "label_values \<rightharpoonup> 'f"
  temperature :: "label_values \<rightharpoonup> 'f"

text \<open>The body of the feature loop of \<open>collectLm\<close> (lines 102 to 110).\<close>

definition pollFeature :: "string \<Rightarrow> string \<Rightarrow> 'f Feature \<Rightarrow> 'f Gauges \<Rightarrow> 'f Gauges" where
  "pollFeature chip adaptor feature g =
     (if HasPrefix (Name feature) ''fan'' then
        g\<lparr>fanspeed := (fanspeed g)((GetLabel feature, chip, adaptor) \<mapsto> GetValue feature)\<rparr>
      else if HasPrefix (Name feature) ''temp'' then
        g\<lparr>temperature := (temperature g)((GetLabel feature, chip, adaptor) \<mapsto> GetValue feature)\<rparr>
      else if HasPrefix (Name feature) ''in'' then
        g\<lparr>voltages := (voltages g)((GetLabel feature, chip, adaptor) \<mapsto> GetValue feature)\<rparr>
      else if HasPrefix (Name feature) ''power'' then
        g\<lparr>powers := (powers g)((GetLabel feature, chip, adaptor) \<mapsto> GetValue feature)\<rparr>
      else g)"

text \<open>
  The categories of the specification's data model, the classification by name prefix
  in its words (\<open>fan\<close>, \<open>temp\<close>, \<open>in\<close> for voltage, \<open>power\<close>), and the
  gauge vector that holds a category.
\<close>

datatype category = Fan | Temperature | Voltage | Power

definition classify :: "string \<Rightarrow> category option" where
  "classify name =
     (if HasPrefix name ''fan'' then Some Fan
      else if HasPrefix name ''temp'' then Some Temperature
      else if HasPrefix name ''in'' then Some Voltage
      else if HasPrefix name ''power'' then Some Power
      else None)"

fun gauge :: "category \<Rightarrow> 'f Gauges \<Rightarrow> (label_values \<rightharpoonup> 'f)" where
  "gauge Fan g = fanspeed g"
| "gauge Temperature g = temperature g"
| "gauge Voltage g = voltages g"
| "gauge Power g = powers g"

text \<open>
  One pass of the outer loop (lines 98 to 113) over the chips that
  \<open>GetDetectedChips\<close> returned, and the passes the poller has made so far, one list
  of chips per second. The loop itself never ends.
\<close>

definition pollChip :: "'f Chip \<Rightarrow> 'f Gauges \<Rightarrow> 'f Gauges" where
  "pollChip chip g = fold (pollFeature (chipName chip) (adaptorName chip)) (GetFeatures chip) g"

definition pollOnce :: "'f Chip list \<Rightarrow> 'f Gauges \<Rightarrow> 'f Gauges" where
  "pollOnce chips g = fold pollChip chips g"

definition collectLm :: "'f Chip list list \<Rightarrow> 'f Gauges \<Rightarrow> 'f Gauges" where
  "collectLm passes g = fold pollOnce passes g"

section \<open>Splitting\<close>

lemma Split_nonempty: "Split s sep \<noteq> []"
  by (induction s sep rule: Split.induct) (auto split: list.splits)

lemma Split_delim_free: "CHR ''|'' \<notin> set s \<Longrightarrow> Split s ''|'' = [s]"
  by (induction s) auto

lemma Split_field:
  "CHR ''|'' \<notin> set d \<Longrightarrow> Split (d @ CHR ''|'' # rest) ''|'' = d # Split rest ''|''"
  by (induction d) auto

lemma Split_item_text:
  assumes "CHR ''|'' \<notin> set d" "CHR ''|'' \<notin> set i" "CHR ''|'' \<notin> set t" "CHR ''|'' \<notin> set u"
  shows "Split (d @ ''|'' @ i @ ''|'' @ t @ ''|'' @ u) ''|'' = [d, i, t, u]"
  using assms by (simp add: Split_field Split_delim_free)

lemma Split_single: "single_delims s \<Longrightarrow> Split s ''||'' = [s]"
  by (induction s rule: single_delims.induct) auto

lemma Split_item:
  "single_delims s \<Longrightarrow> Split (s @ ''||'' @ rest) ''||'' = s # Split rest ''||''"
  by (induction s rule: single_delims.induct) auto

lemma single_delims_field:
  "CHR ''|'' \<notin> set x \<Longrightarrow> y \<noteq> [] \<Longrightarrow> hd y \<noteq> CHR ''|'' \<Longrightarrow> single_delims y \<Longrightarrow>
     single_delims (x @ CHR ''|'' # y)"
  by (induction x rule: single_delims.induct) (auto simp: neq_Nil_conv)

lemma single_delims_item:
  assumes "wf_reading r"
  shows "single_delims (item_text r)"
proof -
  obtain d i t where r: "r = (d, i, t)" by (cases r)
  from assms r have d: "CHR ''|'' \<notin> set d" and i: "CHR ''|'' \<notin> set i" "i \<noteq> []"
    and t: "CHR ''|'' \<notin> set t" "t \<noteq> []" by simp_all
  have hd_i: "hd i \<noteq> CHR ''|''" and hd_t: "hd t \<noteq> CHR ''|''"
    using i t by (cases i; cases t; auto)+
  have 1: "single_delims (t @ CHR ''|'' # ''C'')"
    using t single_delims_field [of t "''C''"] by simp
  have 2: "single_delims (i @ CHR ''|'' # t @ CHR ''|'' # ''C'')"
    using i t hd_t 1 single_delims_field [of i "t @ CHR ''|'' # ''C''"] by simp
  have 3: "single_delims (d @ CHR ''|'' # i @ CHR ''|'' # t @ CHR ''|'' # ''C'')"
    using d i hd_i 2 single_delims_field [of d "i @ CHR ''|'' # t @ CHR ''|'' # ''C''"] by simp
  then show ?thesis by (simp add: r)
qed

lemma Split_Join:
  "items \<noteq> [] \<Longrightarrow> \<forall>x\<in>set items. single_delims x \<Longrightarrow>
     Split (Join items ''||'') ''||'' = items"
proof (induction items "''||''" rule: Join.induct)
  case 1
  then show ?case by simp
next
  case (2 x)
  then show ?case by (simp add: Split_single)
next
  case (3 x y ys)
  then show ?case using Split_item [of x "Join (y # ys) ''||''"] by simp
qed

section \<open>The parser on one item\<close>

lemma parseHddTemp_four_fields:
  assumes "Split item ''|'' = [d, i, t, u]"
  shows "parseHddTemp ParseFloat item =
           (if u \<noteq> ''C'' then Inl UnsupportedUnit
            else case ParseFloat t of
                   None \<Rightarrow> Inl BadNumber
                 | Some v \<Rightarrow> Inr \<lparr>Device = d, Id' = i, TemperatureCelsius = v\<rparr>)"
  using assms by (simp add: parseHddTemp_def Let_def split: option.split)

lemma parseHddTemp_field_count:
  "length (Split item ''|'') \<noteq> 4 \<Longrightarrow> parseHddTemp ParseFloat item = Inl WrongFieldCount"
  by (simp add: parseHddTemp_def Let_def)

lemma parseHddTemp_item_text:
  assumes "wf_reading (d, i, t)" "ParseFloat t = Some v"
  shows "parseHddTemp ParseFloat (item_text (d, i, t)) =
           Inr \<lparr>Device = d, Id' = i, TemperatureCelsius = v\<rparr>"
proof -
  have "Split (item_text (d, i, t)) ''|'' = [d, i, t, ''C'']"
    using assms(1) Split_item_text [of d i t "''C''"] by simp
  then show ?thesis using assms(2) by (simp add: parseHddTemp_four_fields)
qed

section \<open>The parser on an envelope\<close>

lemma parseHddTemps_loop_stops:
  assumes "\<forall>x\<in>set before. \<exists>ht. parseHddTemp ParseFloat x = Inr ht"
    and "parseHddTemp ParseFloat item = Inl err"
  shows "parseHddTemps_loop ParseFloat acc (before @ item # after) = Inl err"
  using assms by (induction before arbitrary: acc) auto

lemma parseHddTemps_loop_fails:
  assumes "item \<in> set items" "parseHddTemp ParseFloat item = Inl err"
  shows "\<exists>e. parseHddTemps_loop ParseFloat acc items = Inl e"
  using assms by (induction items arbitrary: acc) (auto split: sum.splits)

lemma parseHddTemps_loop_items:
  assumes "\<forall>(r, v)\<in>set rs. wf_reading r \<and> ParseFloat (snd (snd r)) = Some v"
  shows "parseHddTemps_loop ParseFloat acc (map item_text (map fst rs)) =
           Inr (acc @ map reading_record rs)"
  using assms
proof (induction rs arbitrary: acc)
  case Nil
  then show ?case by simp
next
  case (Cons a rs)
  obtain d i t v where a: "a = ((d, i, t), v)" by (cases a) auto
  with Cons.prems have "wf_reading (d, i, t)" "ParseFloat t = Some v" by auto
  then have "parseHddTemp ParseFloat (item_text (d, i, t)) = Inr (reading_record a)"
    by (simp add: parseHddTemp_item_text a del: item_text.simps wf_reading.simps)
  moreover have "parseHddTemps_loop ParseFloat (acc @ [reading_record a]) (map item_text (map fst rs))
      = Inr ((acc @ [reading_record a]) @ map reading_record rs)"
    using Cons.prems by (intro Cons.IH) simp
  ultimately show ?case by (simp add: a comp_def del: item_text.simps)
qed

text \<open>
  Past the guard of line 164 and with at least two characters, the call is the loop over
  the items of what lies between the first and the last character.
\<close>

lemma parseHddTemps_body:
  "parseHddTemps ParseFloat (CHR ''|'' # body @ [c]) =
     Returns (parseHddTemps_loop ParseFloat [] (Split body ''||''))"
  by (simp add: parseHddTemps_def slice_def)

lemma envelope_body: "envelope rs = CHR ''|'' # Join (map item_text rs) ''||'' @ [CHR ''|'']"
  by (simp add: envelope_def)

lemma parseHddTemps_envelope:
  assumes "rs \<noteq> []"
    and "\<forall>(r, v)\<in>set rs. wf_reading r \<and> ParseFloat (snd (snd r)) = Some v"
  shows "parseHddTemps ParseFloat (envelope (map fst rs)) = Returns (Inr (map reading_record rs))"
proof -
  let ?items = "map item_text (map fst rs)"
  have "\<forall>x\<in>set ?items. single_delims x"
    using assms(2) by (auto intro!: single_delims_item simp del: item_text.simps wf_reading.simps)
  with assms(1) have "Split (Join ?items ''||'') ''||'' = ?items"
    by (intro Split_Join) simp_all
  moreover have "parseHddTemps_loop ParseFloat [] ?items = Inr (map reading_record rs)"
    using parseHddTemps_loop_items [OF assms(2), of "[]"] by simp
  ultimately show ?thesis
    by (simp only: envelope_body parseHddTemps_body)
qed

text \<open>The only string on which \<open>parseHddTemps\<close> panics is the delimiter alone.\<close>

lemma parseHddTemps_Panic_iff: "parseHddTemps ParseFloat s = Panic \<longleftrightarrow> s = ''|''"
proof (cases s)
  case Nil
  then show ?thesis by (simp add: parseHddTemps_def)
next
  case (Cons c cs)
  then show ?thesis
    by (cases cs) (auto simp: parseHddTemps_def slice_def)
qed


section \<open>Claims about the parser\<close>

text \<open>
  C5. Every input string that does not begin with the delimiter character, the empty
  string included, fails with \<open>MalformedEnvelope\<close> and gives no records.
\<close>

theorem parseHddTemps_no_leading_delimiter:
  assumes "s = [] \<or> hd s \<noteq> CHR ''|''"
  shows "parseHddTemps ParseFloat s = Returns (Inl MalformedEnvelope)"
  using assms by (cases s) (auto simp: parseHddTemps_def)

theorem parseHddTemps_no_leading_delimiter_witness:
  "parseHddTemps decimal ''drive0|id1|45.0|C|'' = Returns (Inl MalformedEnvelope) \<and>
   parseHddTemps decimal '''' = Returns (Inl MalformedEnvelope)"
  using parseHddTemps_no_leading_delimiter [of "''drive0|id1|45.0|C|''" decimal]
    parseHddTemps_no_leading_delimiter [of "''''" decimal]
  by simp

text \<open>
  C6. An item of four fields whose fourth field is not exactly \<open>C\<close> fails with
  \<open>UnsupportedUnit\<close>, whatever its temperature text and whatever \<open>ParseFloat\<close>
  would make of it: nothing is converted. An envelope that holds such an item gives no
  records, and fails with \<open>UnsupportedUnit\<close> when the items before it parse.
\<close>

theorem unit_not_celsius_rejected:
  assumes "Split item ''|'' = [d, i, t, u]" and "u \<noteq> ''C''"
  shows "parseHddTemp ParseFloat item = Inl UnsupportedUnit \<and>
    (\<forall>body c. item \<in> set (Split body ''||'') \<longrightarrow>
       (\<exists>e. parseHddTemps ParseFloat (CHR ''|'' # body @ [c]) = Returns (Inl e))) \<and>
    (\<forall>body c before after.
       Split body ''||'' = before @ item # after \<and>
       (\<forall>x\<in>set before. \<exists>ht. parseHddTemp ParseFloat x = Inr ht) \<longrightarrow>
       parseHddTemps ParseFloat (CHR ''|'' # body @ [c]) = Returns (Inl UnsupportedUnit))"
proof -
  have item: "parseHddTemp ParseFloat item = Inl UnsupportedUnit"
    using assms by (simp add: parseHddTemp_four_fields)
  have "\<exists>e. parseHddTemps ParseFloat (CHR ''|'' # body @ [c]) = Returns (Inl e)"
    if "item \<in> set (Split body ''||'')" for body c
    using parseHddTemps_loop_fails [OF that item] by (simp add: parseHddTemps_body)
  moreover have "parseHddTemps ParseFloat (CHR ''|'' # body @ [c]) = Returns (Inl UnsupportedUnit)"
    if "Split body ''||'' = before @ item # after"
      and "\<forall>x\<in>set before. \<exists>ht. parseHddTemp ParseFloat x = Inr ht"
    for body c before after
    using parseHddTemps_loop_stops [OF that(2) item] that(1) by (simp add: parseHddTemps_body)
  ultimately show ?thesis using item by blast
qed

theorem unit_not_celsius_rejected_witness:
  "parseHddTemp decimal ''drive0|id1|45.0|F'' = Inl UnsupportedUnit \<and>
   parseHddTemps decimal ''|drive0|id1|45.0|F|'' = Returns (Inl UnsupportedUnit)"
proof -
  have split: "Split ''drive0|id1|45.0|F'' ''|'' = [''drive0'', ''id1'', ''45.0'', ''F'']"
    by simp
  have unit: "''F'' \<noteq> ''C''"
    by simp
  note rejected = unit_not_celsius_rejected [OF split unit, of decimal]
  have item: "parseHddTemp decimal ''drive0|id1|45.0|F'' = Inl UnsupportedUnit"
    using rejected by (rule conjunct1)
  have "parseHddTemps decimal (CHR ''|'' # ''drive0|id1|45.0|F'' @ [CHR ''|'']) =
          Returns (Inl UnsupportedUnit)"
    using rejected [THEN conjunct2, THEN conjunct2, rule_format,
        where body = "''drive0|id1|45.0|F''" and before = "[]" and after = "[]" and c = "CHR ''|''"]
    by simp
  with item show ?thesis by simp
qed

lemmas ParseFloat64_simps =
  ParseFloat64_def special_def lower_def decimal_literal_def mantissa_def exponent_def
  scale10_def MaxFloat64_def digit_def base10_numeral_def

text \<open>
  C7, as the code has it. The unit is checked before the temperature, so the third field
  decides only for an item of four fields whose fourth is \<open>C\<close>; and what it is asked
  is whether \<open>ParseFloat\<close> accepts it, which is not the same as being a base-10
  numeral. Such an item parses exactly when \<open>ParseFloat\<close> accepts its third field, the
  record then holds the value \<open>ParseFloat\<close> gave, and a third field \<open>ParseFloat\<close>
  rejects fails with \<open>BadNumber\<close>.
\<close>

theorem temperature_field_decides:
  assumes "Split item ''|'' = [d, i, t, ''C'']"
  shows "parseHddTemp ParseFloat item =
           (case ParseFloat t of
              None \<Rightarrow> Inl BadNumber
            | Some v \<Rightarrow> Inr \<lparr>Device = d, Id' = i, TemperatureCelsius = v\<rparr>)"
  using assms by (simp add: parseHddTemp_four_fields)

theorem temperature_field_decides_witness:
  "parseHddTemp ParseFloat64 ''drive0|id1|45.0|C'' =
     Inr \<lparr>Device = ''drive0'', Id' = ''id1'', TemperatureCelsius = Finite 45\<rparr> \<and>
   parseHddTemp ParseFloat64 ''drive0|id1|warm|C'' = Inl BadNumber"
  using temperature_field_decides
      [of "''drive0|id1|45.0|C''" "''drive0''" "''id1''" "''45.0''" ParseFloat64]
    temperature_field_decides
      [of "''drive0|id1|warm|C''" "''drive0''" "''id1''" "''warm''" ParseFloat64]
  by (simp add: ParseFloat64_simps)

text \<open>
  The claim as it was stated fails three times over.
  \<^item> The item \<open>drive0|id1|45.0|F\<close> has the numeral \<open>45.0\<close> as its third field and
    does not parse: its unit is refused first.
  \<^item> The item \<open>drive0|id1|NaN|C\<close> parses, to a record whose temperature is not a
    number: \<open>NaN\<close> is no base-10 numeral, and \<open>ParseFloat\<close> accepts it.
  \<^item> The item \<open>drive0|id1|1e400|C\<close> fails with \<open>BadNumber\<close>: \<open>1e400\<close> is a base-10
    numeral, beyond the range of \<open>float64\<close>.
\<close>

theorem third_field_numeral_counterexample:
  "base10_numeral ''45.0'' \<and>
   parseHddTemp ParseFloat64 ''drive0|id1|45.0|F'' = Inl UnsupportedUnit \<and>
   \<not> base10_numeral ''NaN'' \<and>
   parseHddTemp ParseFloat64 ''drive0|id1|NaN|C'' =
     Inr \<lparr>Device = ''drive0'', Id' = ''id1'', TemperatureCelsius = NaN\<rparr> \<and>
   base10_numeral ''1e400'' \<and>
   parseHddTemp ParseFloat64 ''drive0|id1|1e400|C'' = Inl BadNumber"
  by (simp add: parseHddTemp_def ParseFloat64_simps)

text \<open>
  C4. The envelope built from one or more well-formed readings parses to as many
  records, in the order of the readings, each with the device and the id of its reading
  and the value \<open>ParseFloat\<close> gives for its temperature text. Nothing is asked of the
  devices beyond being free of the delimiter; they need not differ.
\<close>

theorem parse_roundtrip:
  assumes "rs \<noteq> []"
    and "\<forall>(r, v)\<in>set rs. wf_reading r \<and> ParseFloat (snd (snd r)) = Some v"
  shows "parseHddTemps ParseFloat (envelope (map fst rs)) = Returns (Inr (map reading_record rs))"
  using assms by (rule parseHddTemps_envelope)

theorem parse_roundtrip_witness:
  "parseHddTemps decimal ''|drive0|id1|45.0|C||drive1|id2|50.5|C|'' =
     Returns (Inr [\<lparr>Device = ''drive0'', Id' = ''id1'', TemperatureCelsius = 45\<rparr>,
                   \<lparr>Device = ''drive1'', Id' = ''id2'', TemperatureCelsius = 101 / 2\<rparr>])"
  using parse_roundtrip
    [of "[((''drive0'', ''id1'', ''45.0''), 45), ((''drive1'', ''id2'', ''50.5''), 101 / 2)]" decimal]
  by (simp add: envelope_def unsigned_decimal_def digit_def)

text \<open>
  C10, as the code has it. \<open>parseHddTemp\<close> asks nothing of the device and the id: an
  item with an empty first or second field parses, with the empty string in the record.
  An envelope keeps an empty device too. An empty id, though, puts two delimiters side
  by side inside the item, the envelope is cut there, and the call fails with
  \<open>WrongFieldCount\<close>.
\<close>

theorem empty_device_or_id:
  assumes "ParseFloat t = Some v"
    and "CHR ''|'' \<notin> set d" "CHR ''|'' \<notin> set i" "CHR ''|'' \<notin> set t"
    and "i \<noteq> []" "t \<noteq> []"
  shows "parseHddTemp ParseFloat (item_text ('''', i, t)) =
           Inr \<lparr>Device = '''', Id' = i, TemperatureCelsius = v\<rparr> \<and>
         parseHddTemp ParseFloat (item_text (d, '''', t)) =
           Inr \<lparr>Device = d, Id' = '''', TemperatureCelsius = v\<rparr> \<and>
         parseHddTemps ParseFloat (envelope [('''', i, t)]) =
           Returns (Inr [\<lparr>Device = '''', Id' = i, TemperatureCelsius = v\<rparr>]) \<and>
         parseHddTemps ParseFloat (envelope [(d, '''', t)]) = Returns (Inl WrongFieldCount)"
proof -
  have 1: "parseHddTemp ParseFloat (item_text ('''', i, t)) =
             Inr \<lparr>Device = '''', Id' = i, TemperatureCelsius = v\<rparr>"
    using assms by (intro parseHddTemp_item_text) simp_all
  have "Split (item_text (d, '''', t)) ''|'' = [d, '''', t, ''C'']"
    using assms Split_item_text [of d "''''" t "''C''"] by simp
  then have 2: "parseHddTemp ParseFloat (item_text (d, '''', t)) =
             Inr \<lparr>Device = d, Id' = '''', TemperatureCelsius = v\<rparr>"
    using assms(1) by (simp add: parseHddTemp_four_fields)
  have 3: "parseHddTemps ParseFloat (envelope [('''', i, t)]) =
             Returns (Inr [\<lparr>Device = '''', Id' = i, TemperatureCelsius = v\<rparr>])"
    using assms parseHddTemps_envelope [of "[(('''', i, t), v)]" ParseFloat] by simp
  have "single_delims d"
    using assms(2) by (induction d rule: single_delims.induct) auto
  then have "Split (d @ ''||'' @ t @ ''|C'') ''||'' = d # Split (t @ ''|C'') ''||''"
    by (rule Split_item)
  moreover have "parseHddTemp ParseFloat d = Inl WrongFieldCount"
    using assms(2) by (simp add: parseHddTemp_field_count Split_delim_free)
  moreover have "envelope [(d, '''', t)] = CHR ''|'' # (d @ ''||'' @ t @ ''|C'') @ [CHR ''|'']"
    by (simp add: envelope_def)
  ultimately have 4: "parseHddTemps ParseFloat (envelope [(d, '''', t)]) = Returns (Inl WrongFieldCount)"
    by (simp only: parseHddTemps_body parseHddTemps_loop.simps sum.case)
  from 1 2 3 4 show ?thesis by blast
qed

theorem empty_device_or_id_witness:
  "parseHddTemps decimal ''||id|45.0|C|'' =
     Returns (Inr [\<lparr>Device = '''', Id' = ''id'', TemperatureCelsius = 45\<rparr>]) \<and>
   parseHddTemp decimal ''dev||45.0|C'' =
     Inr \<lparr>Device = ''dev'', Id' = '''', TemperatureCelsius = 45\<rparr>"
  using empty_device_or_id [of decimal "''45.0''" 45 "''dev''" "''id''"]
  by (simp add: envelope_def unsigned_decimal_def digit_def)

text \<open>
  The claim as it was stated fails on the envelope \<open>|dev||45.0|C|\<close>, whose one item
  has an empty second field.
\<close>

theorem empty_id_counterexample:
  "envelope [(''dev'', '''', ''45.0'')] = ''|dev||45.0|C|'' \<and>
   decimal ''45.0'' = Some 45 \<and>
   parseHddTemps decimal ''|dev||45.0|C|'' = Returns (Inl WrongFieldCount)"
  by (simp add: envelope_def unsigned_decimal_def digit_def parseHddTemps_def slice_def parseHddTemp_def)


section \<open>The collector\<close>

lemma readTempsFromConn_nil: "conn h = None \<Longrightarrow> readTempsFromConn h r = Panic"
  by (simp add: readTempsFromConn_def)

lemma readTempsFromConn_EOF:
  "conn h = Some c \<Longrightarrow>
     readTempsFromConn h (UntilEOF bs) = Returns (h\<lparr>buf := buf h @ bs\<rparr>, Inr (buf h @ bs))"
  by (simp add: readTempsFromConn_def)

lemma readTempsFromConn_error:
  "conn h = Some c \<Longrightarrow>
     readTempsFromConn h (UntilError bs) = Returns (h\<lparr>buf := buf h @ bs\<rparr>, Inl ReadError)"
  by (simp add: readTempsFromConn_def)

text \<open>
  When \<open>Collect\<close> returns, the collector differs from the one it was called on only
  in the buffer, which has grown by the bytes received.
\<close>

lemma Collect_Returns:
  assumes "Collect ParseFloat h r = Returns (h', out)"
  shows "h' = h\<lparr>buf := buf h @ received r\<rparr>"
  using assms
  by (cases r)
     (auto simp: Collect_def readTempsFromConn_def
           split: option.splits outcome.splits sum.splits)

text \<open>
  \<open>Collect\<close> panics in two cases and no other: the connection is \<open>nil\<close>, or the
  read ends well and the buffer then holds the delimiter alone.
\<close>

lemma Collect_Panic_iff:
  "Collect ParseFloat h r = Panic \<longleftrightarrow>
     conn h = None \<or> (\<exists>bs. r = UntilEOF bs \<and> buf h @ bs = ''|'')"
proof (cases "conn h")
  case None
  then show ?thesis by (simp add: Collect_def readTempsFromConn_nil)
next
  case (Some c)
  show ?thesis
  proof (cases r)
    case (UntilEOF bs)
    have "Collect ParseFloat h (UntilEOF bs) = Panic \<longleftrightarrow>
            parseHddTemps ParseFloat (buf h @ bs) = Panic"
      by (simp add: Collect_def readTempsFromConn_EOF [OF Some]
               split: outcome.splits sum.splits)
    then show ?thesis using Some UntilEOF by (simp add: parseHddTemps_Panic_iff)
  next
    case (UntilError bs)
    then show ?thesis using Some by (simp add: Collect_def readTempsFromConn_error [OF Some])
  qed
qed

text \<open>A read error and a parse error are logged, and nothing is sent on the channel.\<close>

lemma Collect_read_error:
  "conn h = Some c \<Longrightarrow>
     Collect ParseFloat h (UntilError bs) = Returns (h\<lparr>buf := buf h @ bs\<rparr>, [], [ReadError])"
  by (simp add: Collect_def readTempsFromConn_error)

lemma Collect_parse_error:
  "conn h = Some c \<Longrightarrow> parseHddTemps ParseFloat (buf h @ bs) = Returns (Inl err) \<Longrightarrow>
     Collect ParseFloat h (UntilEOF bs) = Returns (h\<lparr>buf := buf h @ bs\<rparr>, [], [err])"
  by (simp add: Collect_def readTempsFromConn_EOF)

lemma scrapes_buf:
  assumes "scrapes ParseFloat h rs = Some h'"
  shows "h' = h\<lparr>buf := buf h @ concat (map received rs)\<rparr>"
  using assms
proof (induction rs arbitrary: h)
  case Nil
  then show ?case by simp
next
  case (Cons r rs)
  from Cons.prems obtain h1 out where c: "Collect ParseFloat h r = Returns (h1, out)"
    and s: "scrapes ParseFloat h1 rs = Some h'"
    by (auto split: outcome.splits)
  from c have "h1 = h\<lparr>buf := buf h @ received r\<rparr>" by (rule Collect_Returns)
  with Cons.IH [OF s] show ?case by simp
qed

section \<open>Claims about the collector\<close>

text \<open>
  C1. The claim is that \<open>Collect\<close> never panics. On a connected collector whose buffer
  is still empty, a daemon that sends the delimiter alone and ends the stream makes
  \<open>Collect\<close> panic: the guard of line 164 asks for one character where the slice of
  line 167 needs two.
\<close>

theorem Collect_lone_delimiter_panics:
  "Collect ParseFloat \<lparr>address = a, conn = Some c, buf = []\<rparr> (UntilEOF ''|'') = Panic"
  by (simp add: Collect_def readTempsFromConn_def parseHddTemps_def slice_def)

text \<open>
  C2. The claim is that scrapes go on without the disk temperatures when the connection
  was never made. When \<open>Dial\<close> fails, \<open>Init\<close> returns its error and leaves the
  connection \<open>nil\<close>; \<open>main\<close> logs the error and registers the collector all the
  same, and every \<open>Collect\<close> on it panics, whatever the peer would have sent.
\<close>

theorem Collect_after_failed_Init_panics:
  assumes "Dial addr = None"
  shows "snd (Init Dial (NewHddCollector addr)) = Some ConnectError \<and>
         Collect ParseFloat (fst (Init Dial (NewHddCollector addr))) r = Panic \<and>
         scrapes ParseFloat (fst (Init Dial (NewHddCollector addr))) (r # rs) = None"
proof -
  have init: "Init Dial (NewHddCollector addr) = (NewHddCollector addr, Some ConnectError)"
    using assms by (simp add: Init_def NewHddCollector_def)
  have "conn (NewHddCollector addr) = None"
    by (simp add: NewHddCollector_def)
  then have "Collect ParseFloat (NewHddCollector addr) r = Panic"
    by (simp add: Collect_Panic_iff)
  with init show ?thesis by simp
qed

theorem Collect_after_failed_Init_panics_witness:
  "snd (Init (\<lambda>a. None) (NewHddCollector ''localhost:7634'')) = Some ConnectError \<and>
   Collect decimal (fst (Init (\<lambda>a. None) (NewHddCollector ''localhost:7634'')))
     (UntilEOF ''|sda|disk|45.0|C|'') = Panic"
  using Collect_after_failed_Init_panics
    [of "\<lambda>a. None" "''localhost:7634''" decimal "UntilEOF ''|sda|disk|45.0|C|''" "[]"]
  by simp

text \<open>
  C3. Start from a collector that \<open>Init\<close> has connected. After any run of scrapes
  that \<open>Collect\<close> returned from, the buffer is all the bytes received in those scrapes,
  in order; and on the next scrape, when the read ends well, the string given to
  \<open>parseHddTemps\<close> is those bytes followed by the bytes of this scrape.
\<close>

theorem buffer_never_cleared:
  assumes "Init Dial (NewHddCollector addr) = (h0, None)"
    and "scrapes ParseFloat h0 rs = Some h"
  shows "buf h = concat (map received rs) \<and>
         readTempsFromConn h (UntilEOF bs) =
           Returns (h\<lparr>buf := concat (map received rs) @ bs\<rparr>, Inr (concat (map received rs) @ bs)) \<and>
         Collect ParseFloat h (UntilEOF bs) =
           (case parseHddTemps ParseFloat (concat (map received rs) @ bs) of
              Panic \<Rightarrow> Panic
            | Returns (Inl err) \<Rightarrow> Returns (h\<lparr>buf := concat (map received rs) @ bs\<rparr>, [], [err])
            | Returns (Inr hddtemps) \<Rightarrow>
                Returns (h\<lparr>buf := concat (map received rs) @ bs\<rparr>, map hddTempMetric hddtemps, []))"
proof -
  from assms(1) obtain c where h0: "h0 = \<lparr>address = addr, conn = Some c, buf = []\<rparr>"
    by (auto simp: Init_def NewHddCollector_def split: option.splits)
  from scrapes_buf [OF assms(2)] h0
  have h: "h = \<lparr>address = addr, conn = Some c, buf = concat (map received rs)\<rparr>"
    by simp
  then have read: "readTempsFromConn h (UntilEOF bs) =
      Returns (h\<lparr>buf := concat (map received rs) @ bs\<rparr>, Inr (concat (map received rs) @ bs))"
    by (simp add: readTempsFromConn_def)
  show ?thesis
    using h read by (simp add: Collect_def split: outcome.splits sum.splits)
qed

theorem buffer_never_cleared_witness:
  "scrapes decimal \<lparr>address = ''localhost:7634'', conn = Some (TCPConn ''localhost:7634''), buf = []\<rparr>
     [UntilEOF ''|sda|disk|45.0|C|'', UntilError ''|sd'', UntilEOF ''a|disk|50.5|C|''] =
     Some \<lparr>address = ''localhost:7634'', conn = Some (TCPConn ''localhost:7634''),
           buf = ''|sda|disk|45.0|C||sda|disk|50.5|C|''\<rparr> \<and>
   Collect decimal \<lparr>address = ''localhost:7634'', conn = Some (TCPConn ''localhost:7634''),
           buf = ''|sda|disk|45.0|C||sda|disk|50.5|C|''\<rparr> (UntilEOF []) =
     Returns (\<lparr>address = ''localhost:7634'', conn = Some (TCPConn ''localhost:7634''),
           buf = ''|sda|disk|45.0|C||sda|disk|50.5|C|''\<rparr>,
        [hddTempMetric \<lparr>Device = ''sda'', Id' = ''disk'', TemperatureCelsius = 45\<rparr>,
         hddTempMetric \<lparr>Device = ''sda'', Id' = ''disk'', TemperatureCelsius = 101 / 2\<rparr>], [])"
proof -
  let ?start = "\<lparr>address = ''localhost:7634'', conn = Some (TCPConn ''localhost:7634''), buf = []\<rparr>"
  let ?rs = "[UntilEOF ''|sda|disk|45.0|C|'', UntilError ''|sd'', UntilEOF ''a|disk|50.5|C|'']"
  let ?final = "\<lparr>address = ''localhost:7634'', conn = Some (TCPConn ''localhost:7634''),
           buf = ''|sda|disk|45.0|C||sda|disk|50.5|C|''\<rparr>"
  have init: "Init (\<lambda>a. Some (TCPConn a)) (NewHddCollector ''localhost:7634'') = (?start, None)"
    by (simp add: Init_def NewHddCollector_def)
  have parse: "parseHddTemps decimal ''|sda|disk|45.0|C||sda|disk|50.5|C|'' =
      Returns (Inr [\<lparr>Device = ''sda'', Id' = ''disk'', TemperatureCelsius = 45\<rparr>,
                    \<lparr>Device = ''sda'', Id' = ''disk'', TemperatureCelsius = 101 / 2\<rparr>])"
    by (simp add: parseHddTemps_def slice_def parseHddTemp_def unsigned_decimal_def digit_def)
  have parse1: "parseHddTemps decimal ''|sda|disk|45.0|C|'' =
      Returns (Inr [\<lparr>Device = ''sda'', Id' = ''disk'', TemperatureCelsius = 45\<rparr>])"
    by (simp add: parseHddTemps_def slice_def parseHddTemp_def unsigned_decimal_def digit_def)
  have run: "scrapes decimal ?start ?rs = Some ?final"
    by (simp add: Collect_def readTempsFromConn_def parse parse1)
  from buffer_never_cleared [OF init run, of "[]"] parse run show ?thesis
    by simp
qed

section \<open>The poller\<close>

text \<open>
  The chain of prefix tests of \<open>collectLm\<close> writes to the gauge vector of the
  feature's category, and writes nothing when the name has no category.
\<close>

lemma pollFeature_classify:
  "pollFeature chip adaptor feature g =
     (case classify (Name feature) of
        None \<Rightarrow> g
      | Some Fan \<Rightarrow>
          g\<lparr>fanspeed := (fanspeed g)((GetLabel feature, chip, adaptor) \<mapsto> GetValue feature)\<rparr>
      | Some Temperature \<Rightarrow>
          g\<lparr>temperature := (temperature g)((GetLabel feature, chip, adaptor) \<mapsto> GetValue feature)\<rparr>
      | Some Voltage \<Rightarrow>
          g\<lparr>voltages := (voltages g)((GetLabel feature, chip, adaptor) \<mapsto> GetValue feature)\<rparr>
      | Some Power \<Rightarrow>
          g\<lparr>powers := (powers g)((GetLabel feature, chip, adaptor) \<mapsto> GetValue feature)\<rparr>)"
  by (simp add: pollFeature_def classify_def)

lemma gauge_pollFeature:
  assumes "classify (Name feature) = Some cat"
  shows "gauge cat' (pollFeature chip adaptor feature g) =
           (if cat' = cat
            then (gauge cat g)((GetLabel feature, chip, adaptor) \<mapsto> GetValue feature)
            else gauge cat' g)"
  using assms by (cases cat; cases cat') (simp_all add: pollFeature_classify)

lemma gauge_pollFeature_unclassified:
  "classify (Name feature) = None \<Longrightarrow>
     gauge cat (pollFeature chip adaptor feature g) = gauge cat g"
  by (simp add: pollFeature_classify)

text \<open>\<open>HasPrefix\<close> holds exactly of the strings that start with the prefix.\<close>

lemma HasPrefix_append: "HasPrefix (pre @ rest) pre"
  by (simp add: HasPrefix_def)

lemma HasPrefix_iff: "HasPrefix s pre \<longleftrightarrow> (\<exists>rest. s = pre @ rest)"
proof
  assume "HasPrefix s pre"
  then have "s = pre @ drop (length pre) s"
    by (metis HasPrefix_def append_take_drop_id)
  then show "\<exists>rest. s = pre @ rest" ..
next
  assume "\<exists>rest. s = pre @ rest"
  then show "HasPrefix s pre" by (auto simp: HasPrefix_def)
qed

text \<open>
  The pass over a chip takes its features in order, and afterwards a gauge holds, under
  each label tuple, the value of the last feature of the chip written there.
\<close>

lemma pollChip_snoc:
  "pollChip (chip\<lparr>GetFeatures := fs @ [f]\<rparr>) g =
     pollFeature (chipName chip) (adaptorName chip) f (pollChip (chip\<lparr>GetFeatures := fs\<rparr>) g)"
  by (simp add: pollChip_def)

lemma gauge_pollChip:
  "gauge cat (pollChip chip g) k =
     (case filter (\<lambda>f. classify (Name f) = Some cat \<and>
                        (GetLabel f, chipName chip, adaptorName chip) = k)
             (rev (GetFeatures chip)) of
        [] \<Rightarrow> gauge cat g k
      | f # _ \<Rightarrow> Some (GetValue f))"
proof -
  have "gauge cat (fold (pollFeature c a) fs g) k =
     (case filter (\<lambda>f. classify (Name f) = Some cat \<and> (GetLabel f, c, a) = k) (rev fs) of
        [] \<Rightarrow> gauge cat g k
      | f # _ \<Rightarrow> Some (GetValue f))" for c a fs
  proof (induction fs rule: rev_induct)
    case Nil
    then show ?case by simp
  next
    case (snoc f fs)
    show ?case
    proof (cases "classify (Name f)")
      case None
      then show ?thesis using snoc by (simp add: gauge_pollFeature_unclassified)
    next
      case (Some cat')
      then show ?thesis using snoc by (auto simp: gauge_pollFeature)
    qed
  qed
  then show ?thesis by (simp add: pollChip_def)
qed

lemma pollOnce_chips: "pollOnce (chips @ [chip]) g = pollChip chip (pollOnce chips g)"
  by (simp add: pollOnce_def)

lemma collectLm_passes: "collectLm (passes @ [chips]) g = pollOnce chips (collectLm passes g)"
  by (simp add: collectLm_def)

section \<open>Claims about the poller\<close>

text \<open>
  C8. Every feature is classified by the prefix of its name. A name that starts with
  \<open>fan\<close> is written to the fan gauges, with \<open>temp\<close> to the temperature gauges, with
  \<open>in\<close> to the voltage gauges, with \<open>power\<close> to the power gauges, each under its
  label, chip and adaptor and with the other gauges untouched; a name that starts with
  none of the four changes nothing. So \<open>temp2_input\<close> goes to the temperature gauges,
  \<open>fan1_input\<close> to the fan gauges, \<open>in0_input\<close> to the voltage gauges,
  \<open>power1_input\<close> to the power gauges, and \<open>beep_enable\<close> nowhere.
\<close>

theorem pollFeature_by_prefix:
  "(\<forall>rest. pollFeature chip adaptor \<lparr>Name = ''fan'' @ rest, GetLabel = l, GetValue = v\<rparr> g =
      g\<lparr>fanspeed := (fanspeed g)((l, chip, adaptor) \<mapsto> v)\<rparr>) \<and>
   (\<forall>rest. pollFeature chip adaptor \<lparr>Name = ''temp'' @ rest, GetLabel = l, GetValue = v\<rparr> g =
      g\<lparr>temperature := (temperature g)((l, chip, adaptor) \<mapsto> v)\<rparr>) \<and>
   (\<forall>rest. pollFeature chip adaptor \<lparr>Name = ''in'' @ rest, GetLabel = l, GetValue = v\<rparr> g =
      g\<lparr>voltages := (voltages g)((l, chip, adaptor) \<mapsto> v)\<rparr>) \<and>
   (\<forall>rest. pollFeature chip adaptor \<lparr>Name = ''power'' @ rest, GetLabel = l, GetValue = v\<rparr> g =
      g\<lparr>powers := (powers g)((l, chip, adaptor) \<mapsto> v)\<rparr>) \<and>
   (\<forall>name.
      (\<forall>rest. name \<noteq> ''fan'' @ rest) \<and> (\<forall>rest. name \<noteq> ''temp'' @ rest) \<and>
      (\<forall>rest. name \<noteq> ''in'' @ rest) \<and> (\<forall>rest. name \<noteq> ''power'' @ rest) \<longrightarrow>
      pollFeature chip adaptor \<lparr>Name = name, GetLabel = l, GetValue = v\<rparr> g = g) \<and>
   pollFeature chip adaptor \<lparr>Name = ''temp2_input'', GetLabel = l, GetValue = v\<rparr> g =
     g\<lparr>temperature := (temperature g)((l, chip, adaptor) \<mapsto> v)\<rparr> \<and>
   pollFeature chip adaptor \<lparr>Name = ''fan1_input'', GetLabel = l, GetValue = v\<rparr> g =
     g\<lparr>fanspeed := (fanspeed g)((l, chip, adaptor) \<mapsto> v)\<rparr> \<and>
   pollFeature chip adaptor \<lparr>Name = ''in0_input'', GetLabel = l, GetValue = v\<rparr> g =
     g\<lparr>voltages := (voltages g)((l, chip, adaptor) \<mapsto> v)\<rparr> \<and>
   pollFeature chip adaptor \<lparr>Name = ''power1_input'', GetLabel = l, GetValue = v\<rparr> g =
     g\<lparr>powers := (powers g)((l, chip, adaptor) \<mapsto> v)\<rparr> \<and>
   pollFeature chip adaptor \<lparr>Name = ''beep_enable'', GetLabel = l, GetValue = v\<rparr> g = g"
proof -
  have none: "pollFeature chip adaptor \<lparr>Name = name, GetLabel = l, GetValue = v\<rparr> g = g"
    if "\<forall>rest. name \<noteq> ''fan'' @ rest" "\<forall>rest. name \<noteq> ''temp'' @ rest"
      "\<forall>rest. name \<noteq> ''in'' @ rest" "\<forall>rest. name \<noteq> ''power'' @ rest"
    for name
  proof -
    from that have "\<not> HasPrefix name ''fan''" "\<not> HasPrefix name ''temp''"
      "\<not> HasPrefix name ''in''" "\<not> HasPrefix name ''power''"
      by (auto simp: HasPrefix_iff)
    then show ?thesis by (simp add: pollFeature_def)
  qed
  have prefixes: "HasPrefix (''fan'' @ rest) ''fan''" "HasPrefix (''temp'' @ rest) ''temp''"
    "HasPrefix (''in'' @ rest) ''in''" "HasPrefix (''power'' @ rest) ''power''" for rest
    by (rule HasPrefix_append)+
  have others: "\<not> HasPrefix (''temp'' @ rest) ''fan''"
    "\<not> HasPrefix (''in'' @ rest) ''fan''" "\<not> HasPrefix (''in'' @ rest) ''temp''"
    "\<not> HasPrefix (''power'' @ rest) ''fan''" "\<not> HasPrefix (''power'' @ rest) ''temp''"
    "\<not> HasPrefix (''power'' @ rest) ''in''" for rest
    by (simp_all add: HasPrefix_def)
  have general:
    "pollFeature chip adaptor \<lparr>Name = ''fan'' @ rest, GetLabel = l, GetValue = v\<rparr> g =
       g\<lparr>fanspeed := (fanspeed g)((l, chip, adaptor) \<mapsto> v)\<rparr>"
    "pollFeature chip adaptor \<lparr>Name = ''temp'' @ rest, GetLabel = l, GetValue = v\<rparr> g =
       g\<lparr>temperature := (temperature g)((l, chip, adaptor) \<mapsto> v)\<rparr>"
    "pollFeature chip adaptor \<lparr>Name = ''in'' @ rest, GetLabel = l, GetValue = v\<rparr> g =
       g\<lparr>voltages := (voltages g)((l, chip, adaptor) \<mapsto> v)\<rparr>"
    "pollFeature chip adaptor \<lparr>Name = ''power'' @ rest, GetLabel = l, GetValue = v\<rparr> g =
       g\<lparr>powers := (powers g)((l, chip, adaptor) \<mapsto> v)\<rparr>" for rest
    using prefixes [of rest] others [of rest] by (simp_all add: pollFeature_def del: append.simps)
  have named:
    "pollFeature chip adaptor \<lparr>Name = ''temp2_input'', GetLabel = l, GetValue = v\<rparr> g =
       g\<lparr>temperature := (temperature g)((l, chip, adaptor) \<mapsto> v)\<rparr>"
    "pollFeature chip adaptor \<lparr>Name = ''fan1_input'', GetLabel = l, GetValue = v\<rparr> g =
       g\<lparr>fanspeed := (fanspeed g)((l, chip, adaptor) \<mapsto> v)\<rparr>"
    "pollFeature chip adaptor \<lparr>Name = ''in0_input'', GetLabel = l, GetValue = v\<rparr> g =
       g\<lparr>voltages := (voltages g)((l, chip, adaptor) \<mapsto> v)\<rparr>"
    "pollFeature chip adaptor \<lparr>Name = ''power1_input'', GetLabel = l, GetValue = v\<rparr> g =
       g\<lparr>powers := (powers g)((l, chip, adaptor) \<mapsto> v)\<rparr>"
    "pollFeature chip adaptor \<lparr>Name = ''beep_enable'', GetLabel = l, GetValue = v\<rparr> g = g"
    by (simp_all add: pollFeature_def HasPrefix_def)
  from general none named show ?thesis by blast
qed

theorem pollFeature_by_prefix_witness:
  "pollFeature ''it8728-isa-0a30'' ''ISA adapter''
     \<lparr>Name = ''fan2_input'', GetLabel = ''fan2'', GetValue = 900 :: rat\<rparr>
     \<lparr>fanspeed = Map.empty, voltages = Map.empty, powers = Map.empty, temperature = Map.empty\<rparr> =
     \<lparr>fanspeed = [(''fan2'', ''it8728-isa-0a30'', ''ISA adapter'') \<mapsto> 900],
      voltages = Map.empty, powers = Map.empty, temperature = Map.empty\<rparr> \<and>
   pollFeature ''it8728-isa-0a30'' ''ISA adapter''
     \<lparr>Name = ''cpu0_vid'', GetLabel = ''cpu0_vid'', GetValue = 1 :: rat\<rparr>
     \<lparr>fanspeed = Map.empty, voltages = Map.empty, powers = Map.empty, temperature = Map.empty\<rparr> =
     \<lparr>fanspeed = Map.empty, voltages = Map.empty, powers = Map.empty, temperature = Map.empty\<rparr>"
proof -
  let ?none = "\<lparr>fanspeed = Map.empty, voltages = Map.empty, powers = Map.empty,
    temperature = (Map.empty :: label_values \<rightharpoonup> rat)\<rparr>"
  have fan: "pollFeature ''it8728-isa-0a30'' ''ISA adapter''
      \<lparr>Name = ''fan'' @ ''2_input'', GetLabel = ''fan2'', GetValue = 900\<rparr> ?none =
      ?none\<lparr>fanspeed := (fanspeed ?none)((''fan2'', ''it8728-isa-0a30'', ''ISA adapter'') \<mapsto> 900)\<rparr>"
    using pollFeature_by_prefix
      [of "''it8728-isa-0a30''" "''ISA adapter''" "''fan2''" 900 ?none, THEN conjunct1]
    by (rule spec)
  have unnamed: "(\<forall>rest. ''cpu0_vid'' \<noteq> ''fan'' @ rest) \<and> (\<forall>rest. ''cpu0_vid'' \<noteq> ''temp'' @ rest) \<and>
      (\<forall>rest. ''cpu0_vid'' \<noteq> ''in'' @ rest) \<and> (\<forall>rest. ''cpu0_vid'' \<noteq> ''power'' @ rest)"
    by simp
  have other: "pollFeature ''it8728-isa-0a30'' ''ISA adapter''
      \<lparr>Name = ''cpu0_vid'', GetLabel = ''cpu0_vid'', GetValue = 1\<rparr> ?none = ?none"
    using pollFeature_by_prefix
      [of "''it8728-isa-0a30''" "''ISA adapter''" "''cpu0_vid''" 1 ?none,
        THEN conjunct2, THEN conjunct2, THEN conjunct2, THEN conjunct2, THEN conjunct1,
        rule_format, of "''cpu0_vid''"]
      unnamed
    by blast
  from fan other show ?thesis by simp
qed

text \<open>
  C9. Two features of one category polled one after the other under the same label,
  chip and adaptor leave the value of the second under that label tuple; every other
  label tuple of that category, and every gauge of the other categories, is as before.
\<close>

theorem gauge_last_write_wins:
  assumes "classify (Name f1) = Some cat" and "classify (Name f2) = Some cat"
    and "GetLabel f1 = GetLabel f2"
  shows "gauge cat (pollFeature chip adaptor f2 (pollFeature chip adaptor f1 g))
           (GetLabel f2, chip, adaptor) = Some (GetValue f2) \<and>
         (\<forall>k. k \<noteq> (GetLabel f2, chip, adaptor) \<longrightarrow>
            gauge cat (pollFeature chip adaptor f2 (pollFeature chip adaptor f1 g)) k = gauge cat g k) \<and>
         (\<forall>cat'. cat' \<noteq> cat \<longrightarrow>
            gauge cat' (pollFeature chip adaptor f2 (pollFeature chip adaptor f1 g)) = gauge cat' g)"
  using assms by (simp add: gauge_pollFeature)

theorem gauge_last_write_wins_witness:
  "fanspeed
     (pollFeature ''it8728-isa-0a30'' ''ISA adapter''
        \<lparr>Name = ''fan1_input'', GetLabel = ''fan1'', GetValue = 1250 :: rat\<rparr>
        (pollFeature ''it8728-isa-0a30'' ''ISA adapter''
           \<lparr>Name = ''fan1_input'', GetLabel = ''fan1'', GetValue = 1200\<rparr>
           \<lparr>fanspeed = [(''fan2'', ''it8728-isa-0a30'', ''ISA adapter'') \<mapsto> 900],
            voltages = Map.empty, powers = Map.empty, temperature = Map.empty\<rparr>))
     (''fan1'', ''it8728-isa-0a30'', ''ISA adapter'') = Some (1250 :: rat) \<and>
   fanspeed
     (pollFeature ''it8728-isa-0a30'' ''ISA adapter''
        \<lparr>Name = ''fan1_input'', GetLabel = ''fan1'', GetValue = 1250 :: rat\<rparr>
        (pollFeature ''it8728-isa-0a30'' ''ISA adapter''
           \<lparr>Name = ''fan1_input'', GetLabel = ''fan1'', GetValue = 1200\<rparr>
           \<lparr>fanspeed = [(''fan2'', ''it8728-isa-0a30'', ''ISA adapter'') \<mapsto> 900],
            voltages = Map.empty, powers = Map.empty, temperature = Map.empty\<rparr>))
     (''fan2'', ''it8728-isa-0a30'', ''ISA adapter'') = Some 900"
proof -
  let ?g = "\<lparr>fanspeed = [(''fan2'', ''it8728-isa-0a30'', ''ISA adapter'') \<mapsto> 900 :: rat],
            voltages = Map.empty, powers = Map.empty, temperature = Map.empty\<rparr>"
  let ?first = "\<lparr>Name = ''fan1_input'', GetLabel = ''fan1'', GetValue = 1200 :: rat\<rparr>"
  let ?second = "\<lparr>Name = ''fan1_input'', GetLabel = ''fan1'', GetValue = 1250 :: rat\<rparr>"
  have cat: "classify (Name ?first) = Some Fan" "classify (Name ?second) = Some Fan"
    by (simp_all add: classify_def HasPrefix_def)
  have label: "GetLabel ?first = GetLabel ?second"
    by simp
  note wins = gauge_last_write_wins
    [OF cat label, of "''it8728-isa-0a30''" "''ISA adapter''" ?g]
  have "gauge Fan (pollFeature ''it8728-isa-0a30'' ''ISA adapter'' ?second
          (pollFeature ''it8728-isa-0a30'' ''ISA adapter'' ?first ?g))
          (''fan1'', ''it8728-isa-0a30'', ''ISA adapter'') = Some 1250"
    using wins by simp
  moreover have "gauge Fan (pollFeature ''it8728-isa-0a30'' ''ISA adapter'' ?second
          (pollFeature ''it8728-isa-0a30'' ''ISA adapter'' ?first ?g))
          (''fan2'', ''it8728-isa-0a30'', ''ISA adapter'') =
        gauge Fan ?g (''fan2'', ''it8728-isa-0a30'', ''ISA adapter'')"
    using wins [THEN conjunct2, THEN conjunct1, rule_format,
        of "(''fan2'', ''it8728-isa-0a30'', ''ISA adapter'')"]
    by simp
  ultimately show ?thesis by simp
qed


end
